theory Spec2Isabelle
  imports Main "HOL-Library.Sublist"
begin

section \<open>The permission store of the access-control service\<close>

text \<open>
  A shallow embedding of \<^verbatim>\<open>AccessControlStore\<close> (package \<^verbatim>\<open>database\<close>):
  \<^verbatim>\<open>GetUserPermissions\<close>, \<^verbatim>\<open>GetUsersPermissions\<close> and \<^verbatim>\<open>DeleteUserPermissions\<close>.
  The three methods are SQL statements run through a session, followed by Go loops over
  the rows. Tables are lists of rows (a table may hold equal rows, and the Go loops see
  the rows in some order), every SQL statement is the list expression it denotes, and Go's
  \<^verbatim>\<open>int64\<close> ids are \<open>int\<close> (no arithmetic is done on them).
\<close>

subsection \<open>Tables\<close>

text \<open>The columns the statements of the source name, table by table.\<close>

record permission_row =
  p_id :: int
  p_role_id :: int
  p_action :: string
  p_scope :: string

record role_row =
  r_id :: int
  r_org_id :: int
  r_name :: string

record user_role_row =
  ur_id :: int
  ur_org_id :: int
  ur_user_id :: int
  ur_role_id :: int

record team_role_row =
  tr_id :: int
  tr_org_id :: int
  tr_team_id :: int
  tr_role_id :: int

record team_member_row =
  tm_id :: int
  tm_org_id :: int
  tm_team_id :: int
  tm_user_id :: int

record builtin_role_row =
  br_id :: int
  br_role :: string
  br_role_id :: int
  br_org_id :: int

record org_user_row =
  ou_id :: int
  ou_org_id :: int
  ou_user_id :: int
  ou_role :: string

record user_row =
  u_id :: int
  u_is_admin :: bool

text \<open>
  The store is SQLite, MySQL or PostgreSQL, and \<^verbatim>\<open>LIKE\<close> is not the same on each. The
  dialect of the store says how \<^verbatim>\<open>LIKE\<close> compares letters (SQLite, the default store,
  ignores the case of ASCII letters; PostgreSQL compares bytes) and which character, if
  any, escapes a wildcard when the statement has no \<^verbatim>\<open>ESCAPE\<close> clause (none on SQLite, the
  backslash on PostgreSQL and MySQL).
\<close>

record like_dialect =
  nocase :: bool
  escape_char :: "char option"

definition sqlite_like :: like_dialect where
  "sqlite_like = \<lparr>nocase = True, escape_char = None\<rparr>"

definition postgres_like :: like_dialect where
  "postgres_like = \<lparr>nocase = False, escape_char = Some (CHR 0x5C)\<rparr>"

record db =
  permission :: "permission_row list"
  role :: "role_row list"
  user_role :: "user_role_row list"
  team_role :: "team_role_row list"
  team_member :: "team_member_row list"
  builtin_role :: "builtin_role_row list"
  org_user :: "org_user_row list"
  user :: "user_row list"
  dialect :: like_dialect

subsection \<open>Errors and the session\<close>

text \<open>
  Every statement sent through the session may fail. Which statement fails, and with
  which error, is an input of the model: a fault plan gives each statement of the source
  the error it returns, or \<open>None\<close> when it succeeds. A failing statement changes nothing.
\<close>

datatype error = StoreFailure string

datatype stmt =
    SelectUserPermissions
  | SelectUsersPermissions
  | SelectUsersRoles
  | DeleteUserRoles
  | DeleteUserScopedPermissions
  | SelectManagedRoles
  | DeleteManagedPermissions
  | DeleteManagedRoles

type_synonym faults = "stmt \<Rightarrow> error option"

definition no_faults :: faults where
  "no_faults = (\<lambda>_. None)"

text \<open>
  Modelled from the spec: \<^verbatim>\<open>db.DB.WithDbSession\<close>, the session executor, lives in
  package \<^verbatim>\<open>db\<close>, outside this package. The specification describes it as running the
  callback inside a
  transactional scope and propagating the callback's error as the overall error, with
  guaranteed rollback on error and guaranteed commit only on full success. The callback
  is a function from the store to the values it assigns to the variables it captures, its
  error and the store it leaves behind.
\<close>

definition WithDbSession :: "(db \<Rightarrow> 'a \<times> error option \<times> db) \<Rightarrow> db \<Rightarrow> 'a \<times> error option \<times> db" where
  "WithDbSession callback d =
     (case callback d of
        (x, None, d') \<Rightarrow> (x, None, d')
      | (x, Some e, d') \<Rightarrow> (x, Some e, d))"

subsection \<open>Names of the access-control package\<close>

text \<open>
  Modelled from the spec: \<^verbatim>\<open>accesscontrol.GlobalOrgID\<close> is declared outside this package;
  the specification gives the reserved global scope as \<^verbatim>\<open>OrgID = 0\<close>.
\<close>

definition GlobalOrgID :: int where
  "GlobalOrgID = 0"

text \<open>
  Modelled from the spec: \<^verbatim>\<open>accesscontrol.RoleGrafanaAdmin\<close> is declared outside this
  package; the specification names the builtin role \<^verbatim>\<open>Grafana Admin\<close>.
\<close>

definition RoleGrafanaAdmin :: string where
  "RoleGrafanaAdmin = ''Grafana Admin''"

text \<open>
  Modelled from the spec: \<^verbatim>\<open>accesscontrol.Scope(parts...)\<close> is declared outside this
  package; the specification writes an instance scope as
  \<^verbatim>\<open><resource>:<attribute>:<value>\<close>, the parts joined by colons. The record field
  \<open>Scope\<close> below keeps the plain name.
\<close>

fun Scope_join :: "string list \<Rightarrow> string" where
  "Scope_join [] = ''''"
| "Scope_join [x] = x"
| "Scope_join (x # y # zs) = x @ '':'' @ Scope_join (y # zs)"

text \<open>
  \<^verbatim>\<open>strconv.FormatInt(i, 10)\<close> of Go's standard library. \<open>digit_char\<close> is only ever applied
  to a number below 10.
\<close>

definition digit_char :: "nat \<Rightarrow> char" where
  "digit_char n = ''0123456789'' ! n"

function digits :: "nat \<Rightarrow> string" where
  "digits n = (if n < 10 then [digit_char n] else digits (n div 10) @ [digit_char (n mod 10)])"
  by pat_completeness auto
termination
  by (relation "measure id") auto

declare digits.simps [simp del]

definition FormatInt :: "int \<Rightarrow> string" where
  "FormatInt i = (if i < 0 then CHR ''-'' # digits (nat (- i)) else digits (nat i))"

text \<open>
  Modelled from the spec: \<^verbatim>\<open>accesscontrol.ManagedUserRoleName\<close> is declared outside this
  package; the specification says that the managed role's name is derived
  deterministically from the user id. The general properties below use no more than that
  it is a function of the id; the examples use the name \<^verbatim>\<open>managed:users:<id>:permissions\<close>.
\<close>

definition ManagedUserRoleName :: "int \<Rightarrow> string" where
  "ManagedUserRoleName userID = ''managed:users:'' @ FormatInt userID @ '':permissions''"

subsection \<open>SQL operators\<close>

text \<open>
  \<^verbatim>\<open>s LIKE pattern\<close> of SQL, in the dialect of the store: \<^verbatim>\<open>%\<close> stands for any run of
  characters, \<^verbatim>\<open>_\<close> for any one character, the escape character followed by a character
  for that character, and every other character for itself; characters are compared after
  folding the case of ASCII letters when the dialect ignores it. The patterns of this
  package end with \<^verbatim>\<open>%\<close>, so they never end with a lone escape character; the model lets
  it stand for itself there.
\<close>

definition ascii_lower :: "char \<Rightarrow> char" where
  "ascii_lower c =
     (case map_of (zip ''ABCDEFGHIJKLMNOPQRSTUVWXYZ'' ''abcdefghijklmnopqrstuvwxyz'') c of
        None \<Rightarrow> c
      | Some l \<Rightarrow> l)"

definition fold_case :: "like_dialect \<Rightarrow> char \<Rightarrow> char" where
  "fold_case L c = (if nocase L then ascii_lower c else c)"

fun like :: "like_dialect \<Rightarrow> string \<Rightarrow> string \<Rightarrow> bool" where
  "like L [] s = (s = [])"
| "like L [c] [] = (c = CHR ''%'' \<and> escape_char L \<noteq> Some c)"
| "like L [c] (x # s) =
     (if escape_char L = Some c then fold_case L c = fold_case L x \<and> s = []
      else if c = CHR ''%'' then True
      else (c = CHR ''_'' \<or> fold_case L c = fold_case L x) \<and> s = [])"
| "like L (c # c' # pat) [] = (c = CHR ''%'' \<and> escape_char L \<noteq> Some c \<and> like L (c' # pat) [])"
| "like L (c # c' # pat) (x # s) =
     (if escape_char L = Some c then fold_case L c' = fold_case L x \<and> like L pat s
      else if c = CHR ''%'' then like L (c' # pat) (x # s) \<or> like L (c # c' # pat) s
      else (c = CHR ''_'' \<or> fold_case L c = fold_case L x) \<and> like L (c' # pat) s)"

subsection \<open>GetUserPermissions\<close>

record Permission =
  Action :: string
  Scope :: string

record GetUserPermissionsQuery =
  OrgID :: int
  UserID :: int
  Roles :: "string list"
  TeamIDs :: "int list"
  Actions :: "string list"

text \<open>
  \<^verbatim>\<open>accesscontrol.UserRolesFilter\<close> is declared outside this package. It returns the
  text of a join clause, which the source splices between
  \<^verbatim>\<open>FROM permission INNER JOIN role ON role.id = permission.role_id\<close> and the optional
  \<^verbatim>\<open>WHERE\<close>, together with its parameters. It is a parameter of the model: for the
  arguments the source passes and the store, the number of rows the clause's join makes
  out of one row of permission joined with role (0 when the clause drops the row).
\<close>

type_synonym user_roles_filter =
  "int \<Rightarrow> int \<Rightarrow> int list \<Rightarrow> string list \<Rightarrow> db \<Rightarrow> permission_row \<times> role_row \<Rightarrow> nat"

text \<open>The rows of \<^verbatim>\<open>permission INNER JOIN role ON role.id = permission.role_id\<close> and the filter.\<close>

definition user_permission_rows ::
    "user_roles_filter \<Rightarrow> db \<Rightarrow> GetUserPermissionsQuery \<Rightarrow> (permission_row \<times> role_row) list" where
  "user_permission_rows UserRolesFilter d query =
     concat (map (\<lambda>pr. replicate
                     (UserRolesFilter (OrgID query) (UserID query) (TeamIDs query) (Roles query) d pr) pr)
       [(p, r). p \<leftarrow> permission d, r \<leftarrow> role d, r_id r = p_role_id p])"

definition to_Permission :: "permission_row \<times> role_row \<Rightarrow> Permission" where
  "to_Permission pr = \<lparr>Action = p_action (fst pr), Scope = p_scope (fst pr)\<rparr>"

definition GetUserPermissions_callback ::
    "user_roles_filter \<Rightarrow> faults \<Rightarrow> GetUserPermissionsQuery \<Rightarrow> db \<Rightarrow> Permission list \<times> error option \<times> db" where
  "GetUserPermissions_callback UserRolesFilter f query d =
     (if UserID query = 0 \<and> length (TeamIDs query) = 0 \<and> length (Roles query) = 0
      then ([], None, d)
      else
        let rows = user_permission_rows UserRolesFilter d query;
            rows' = (if length (Actions query) > 0
                     then filter (\<lambda>pr. p_action (fst pr) \<in> set (Actions query)) rows
                     else rows)
        in (case f SelectUserPermissions of
              Some e \<Rightarrow> ([], Some e, d)
            | None \<Rightarrow> (map to_Permission rows', None, d)))"

definition GetUserPermissions ::
    "user_roles_filter \<Rightarrow> faults \<Rightarrow> db \<Rightarrow> GetUserPermissionsQuery \<Rightarrow> Permission list \<times> error option" where
  "GetUserPermissions UserRolesFilter f d query =
     (case WithDbSession (GetUserPermissions_callback UserRolesFilter f query) d of
        (result, err, _) \<Rightarrow> (result, err))"


subsection \<open>GetUsersPermissions\<close>

record UserRBACPermission =
  rbac_UserID :: int
  rbac_Action :: string
  rbac_Scope :: string

record UserOrgRole =
  uor_UserID :: int
  OrgRole :: string
  IsAdmin :: bool

text \<open>
  The four branches of the inner query, each a list of rows
  \<open>(user_id, org_id, action, scope)\<close>: roles assigned to the user, roles assigned to a
  team of the user, roles linked to the org role of the user, and roles linked to the
  builtin role \<^verbatim>\<open>Grafana Admin\<close> for every user with the admin flag.
\<close>

type_synonym up_row = "int \<times> int \<times> string \<times> string"

definition user_role_branch :: "db \<Rightarrow> up_row list" where
  "user_role_branch d =
     [(ur_user_id ur, ur_org_id ur, p_action p, p_scope p).
        p \<leftarrow> permission d, ur \<leftarrow> user_role d, ur_role_id ur = p_role_id p]"

definition team_role_branch :: "db \<Rightarrow> up_row list" where
  "team_role_branch d =
     [(tm_user_id tm, tr_org_id tr, p_action p, p_scope p).
        p \<leftarrow> permission d, tr \<leftarrow> team_role d, tr_role_id tr = p_role_id p,
        tm \<leftarrow> team_member d, tm_team_id tm = tr_team_id tr]"

definition builtin_role_branch :: "db \<Rightarrow> up_row list" where
  "builtin_role_branch d =
     [(ou_user_id ou, br_org_id br, p_action p, p_scope p).
        p \<leftarrow> permission d, br \<leftarrow> builtin_role d, br_role_id br = p_role_id p,
        ou \<leftarrow> org_user d, ou_role ou = br_role br]"

definition admin_branch :: "db \<Rightarrow> up_row list" where
  "admin_branch d =
     [(u_id sa, br_org_id br, p_action p, p_scope p).
        p \<leftarrow> permission d, br \<leftarrow> builtin_role d, br_role_id br = p_role_id p,
        sa \<leftarrow> filter u_is_admin (user d), br_role br = RoleGrafanaAdmin]"

text \<open>All rows of the branches, before \<^verbatim>\<open>UNION\<close> removes the repeated ones.\<close>

definition grant_rows :: "db \<Rightarrow> up_row list" where
  "grant_rows d = user_role_branch d @ team_role_branch d @ builtin_role_branch d @ admin_branch d"

text \<open>
  \<^verbatim>\<open>UNION\<close> (not \<^verbatim>\<open>UNION ALL\<close>) keeps one copy of each row. The outer \<^verbatim>\<open>WHERE\<close> keeps
  the global organisation and the requested one, and the actions that are
  \<^verbatim>\<open>LIKE actionPrefix + "%"\<close>.
\<close>

definition up :: "db \<Rightarrow> up_row list" where
  "up d = remdups (grant_rows d)"

definition up_where :: "like_dialect \<Rightarrow> int \<Rightarrow> string \<Rightarrow> up_row \<Rightarrow> bool" where
  "up_where L orgID actionPrefix row =
     (case row of (user_id, org_id, action, scope) \<Rightarrow>
        (org_id = GlobalOrgID \<or> org_id = orgID) \<and> like L (actionPrefix @ ''%'') action)"

definition select_permissions :: "db \<Rightarrow> int \<Rightarrow> string \<Rightarrow> UserRBACPermission list" where
  "select_permissions d orgID actionPrefix =
     map (\<lambda>(user_id, org_id, action, scope).
            \<lparr>rbac_UserID = user_id, rbac_Action = action, rbac_Scope = scope\<rparr>)
       (filter (up_where (dialect d) orgID actionPrefix) (up d))"

text \<open>
  \<^verbatim>\<open>user AS u LEFT JOIN org_user AS ou ON u.id = ou.user_id\<close>: a user without a
  membership gives one row whose \<^verbatim>\<open>ou\<close> columns are NULL. In the \<^verbatim>\<open>WHERE\<close>,
  \<^verbatim>\<open>ou.org_id = ?\<close> on NULL is not true; a NULL role is read into the Go string as \<^verbatim>\<open>""\<close>.
\<close>

definition user_left_join_org_user :: "db \<Rightarrow> (user_row \<times> org_user_row option) list" where
  "user_left_join_org_user d =
     concat (map (\<lambda>u.
        (case filter (\<lambda>ou. u_id u = ou_user_id ou) (org_user d) of
           [] \<Rightarrow> [(u, None)]
         | ou # ous \<Rightarrow> map (\<lambda>ou'. (u, Some ou')) (ou # ous))) (user d))"

definition roles_where :: "int \<Rightarrow> user_row \<times> org_user_row option \<Rightarrow> bool" where
  "roles_where orgID row =
     (case row of (u, ou) \<Rightarrow>
        u_is_admin u \<or> (case ou of None \<Rightarrow> False | Some ou' \<Rightarrow> ou_org_id ou' = orgID))"

definition select_roles :: "db \<Rightarrow> int \<Rightarrow> UserOrgRole list" where
  "select_roles d orgID =
     map (\<lambda>(u, ou).
            \<lparr>uor_UserID = u_id u,
             OrgRole = (case ou of None \<Rightarrow> '''' | Some ou' \<Rightarrow> ou_role ou'),
             IsAdmin = u_is_admin u\<rparr>)
       (filter (roles_where orgID) (user_left_join_org_user d))"

definition GetUsersPermissions_callback ::
    "faults \<Rightarrow> int \<Rightarrow> string \<Rightarrow> db \<Rightarrow> (UserRBACPermission list \<times> UserOrgRole list) \<times> error option \<times> db" where
  "GetUsersPermissions_callback f orgID actionPrefix d =
     (case f SelectUsersPermissions of
        Some e \<Rightarrow> (([], []), Some e, d)
      | None \<Rightarrow>
          let dbPerms = select_permissions d orgID actionPrefix in
          (case f SelectUsersRoles of
             Some e \<Rightarrow> ((dbPerms, []), Some e, d)
           | None \<Rightarrow> ((dbPerms, select_roles d orgID), None, d)))"

text \<open>Go's \<^verbatim>\<open>append(m[k], v)\<close> on a map of slices: a missing key reads as the nil slice.\<close>

definition slice_of :: "'a list option \<Rightarrow> 'a list" where
  "slice_of v = (case v of None \<Rightarrow> [] | Some xs \<Rightarrow> xs)"

fun mapped_loop :: "UserRBACPermission list \<Rightarrow> (int \<rightharpoonup> Permission list) \<Rightarrow> (int \<rightharpoonup> Permission list)" where
  "mapped_loop [] mapped = mapped"
| "mapped_loop (row # dbPerms) mapped =
     mapped_loop dbPerms
       (mapped(rbac_UserID row \<mapsto>
          slice_of (mapped (rbac_UserID row)) @ [\<lparr>Action = rbac_Action row, Scope = rbac_Scope row\<rparr>]))"

definition roles_step :: "UserOrgRole \<Rightarrow> (int \<rightharpoonup> string list) \<Rightarrow> (int \<rightharpoonup> string list)" where
  "roles_step row roles =
     (let roles1 = (if OrgRole row \<noteq> '''' then roles(uor_UserID row \<mapsto> [OrgRole row]) else roles)
      in if IsAdmin row
         then roles1(uor_UserID row \<mapsto> slice_of (roles1 (uor_UserID row)) @ [RoleGrafanaAdmin])
         else roles1)"

fun roles_loop :: "UserOrgRole list \<Rightarrow> (int \<rightharpoonup> string list) \<Rightarrow> (int \<rightharpoonup> string list)" where
  "roles_loop [] roles = roles"
| "roles_loop (row # dbRoles) roles = roles_loop dbRoles (roles_step row roles)"

definition GetUsersPermissions ::
    "faults \<Rightarrow> db \<Rightarrow> int \<Rightarrow> string \<Rightarrow> (int \<rightharpoonup> Permission list) \<times> (int \<rightharpoonup> string list) \<times> error option" where
  "GetUsersPermissions f d orgID actionPrefix =
     (case WithDbSession (GetUsersPermissions_callback f orgID actionPrefix) d of
        ((dbPerms, dbRoles), err, _) \<Rightarrow>
          (mapped_loop dbPerms Map.empty, roles_loop dbRoles Map.empty, err))"

subsection \<open>DeleteUserPermissions\<close>

text \<open>\<^verbatim>\<open>DELETE FROM user_role WHERE user_id = ?\<close>, with \<^verbatim>\<open>AND org_id = ?\<close> outside the global scope.\<close>

definition delete_user_roles :: "int \<Rightarrow> int \<Rightarrow> db \<Rightarrow> db" where
  "delete_user_roles orgID userID d =
     d\<lparr>user_role :=
         filter (\<lambda>ur. \<not> (if orgID \<noteq> GlobalOrgID
                          then ur_user_id ur = userID \<and> ur_org_id ur = orgID
                          else ur_user_id ur = userID))
           (user_role d)\<rparr>"

text \<open>\<^verbatim>\<open>DELETE FROM permission WHERE scope = ?\<close>\<close>

definition delete_permissions_scoped :: "string \<Rightarrow> db \<Rightarrow> db" where
  "delete_permissions_scoped scope d =
     d\<lparr>permission := filter (\<lambda>p. \<not> p_scope p = scope) (permission d)\<rparr>"

text \<open>\<^verbatim>\<open>SELECT id FROM role WHERE name = ?\<close>, with \<^verbatim>\<open>AND org_id = ?\<close> outside the global scope.\<close>

definition select_role_ids :: "int \<Rightarrow> int \<Rightarrow> db \<Rightarrow> int list" where
  "select_role_ids orgID userID d =
     map r_id
       (filter (\<lambda>r. if orgID \<noteq> GlobalOrgID
                    then r_name r = ManagedUserRoleName userID \<and> r_org_id r = orgID
                    else r_name r = ManagedUserRoleName userID)
          (role d))"

text \<open>\<^verbatim>\<open>DELETE FROM permission WHERE role_id IN(...)\<close> and \<^verbatim>\<open>DELETE FROM role WHERE id IN(...)\<close>\<close>

definition delete_permissions_of_roles :: "int list \<Rightarrow> db \<Rightarrow> db" where
  "delete_permissions_of_roles roleIDs d =
     d\<lparr>permission := filter (\<lambda>p. p_role_id p \<notin> set roleIDs) (permission d)\<rparr>"

definition delete_roles :: "int list \<Rightarrow> db \<Rightarrow> db" where
  "delete_roles roleIDs d = d\<lparr>role := filter (\<lambda>r. r_id r \<notin> set roleIDs) (role d)\<rparr>"

text \<open>
  The callback, statement by statement; each \<^verbatim>\<open>return err\<close> leaves the store as the
  statements before it made it.
\<close>

definition DeleteUserPermissions_callback :: "faults \<Rightarrow> int \<Rightarrow> int \<Rightarrow> db \<Rightarrow> unit \<times> error option \<times> db" where
  "DeleteUserPermissions_callback f orgID userID d =
     (case f DeleteUserRoles of
        Some e \<Rightarrow> ((), Some e, d)
      | None \<Rightarrow>
          let d1 = delete_user_roles orgID userID d in
          (case (if orgID = GlobalOrgID then f DeleteUserScopedPermissions else None) of
             Some e \<Rightarrow> ((), Some e, d1)
           | None \<Rightarrow>
               let d2 = (if orgID = GlobalOrgID
                         then delete_permissions_scoped (Scope_join [''users'', ''id'', FormatInt userID]) d1
                         else d1)
               in
               (case f SelectManagedRoles of
                  Some e \<Rightarrow> ((), Some e, d2)
                | None \<Rightarrow>
                    let roleIDs = select_role_ids orgID userID d2 in
                    if length roleIDs = 0 then ((), None, d2)
                    else
                      (case f DeleteManagedPermissions of
                         Some e \<Rightarrow> ((), Some e, d2)
                       | None \<Rightarrow>
                           let d3 = delete_permissions_of_roles roleIDs d2 in
                           (case f DeleteManagedRoles of
                              Some e \<Rightarrow> ((), Some e, d3)
                            | None \<Rightarrow> ((), None, delete_roles roleIDs d3))))))"

definition DeleteUserPermissions :: "faults \<Rightarrow> int \<Rightarrow> int \<Rightarrow> db \<Rightarrow> error option \<times> db" where
  "DeleteUserPermissions f orgID userID d =
     (case WithDbSession (DeleteUserPermissions_callback f orgID userID) d of
        (_, err, d') \<Rightarrow> (err, d'))"

text \<open>The store after the first two statements of the callback.\<close>

definition after_scoped :: "int \<Rightarrow> int \<Rightarrow> db \<Rightarrow> db" where
  "after_scoped orgID userID d =
     (if orgID = GlobalOrgID
      then delete_permissions_scoped (Scope_join [''users'', ''id'', FormatInt userID])
             (delete_user_roles orgID userID d)
      else delete_user_roles orgID userID d)"

subsection \<open>Example stores\<close>

text \<open>
  One permission \<^verbatim>\<open>teams:read\<close> on \<^verbatim>\<open>teams:*\<close>, held by role 1 of organisation 1; user 1 has
  the role directly and through team 1.
\<close>

definition db_grants :: db where
  "db_grants =
     \<lparr>permission = [\<lparr>p_id = 1, p_role_id = 1, p_action = ''teams:read'', p_scope = ''teams:*''\<rparr>],
      role = [\<lparr>r_id = 1, r_org_id = 1, r_name = ''custom:teams:reader''\<rparr>],
      user_role = [\<lparr>ur_id = 1, ur_org_id = 1, ur_user_id = 1, ur_role_id = 1\<rparr>],
      team_role = [\<lparr>tr_id = 1, tr_org_id = 1, tr_team_id = 1, tr_role_id = 1\<rparr>],
      team_member = [\<lparr>tm_id = 1, tm_org_id = 1, tm_team_id = 1, tm_user_id = 1\<rparr>],
      builtin_role = [],
      org_user = [\<lparr>ou_id = 1, ou_org_id = 1, ou_user_id = 1, ou_role = ''Viewer''\<rparr>],
      user = [\<lparr>u_id = 1, u_is_admin = False\<rparr>],
      dialect = sqlite_like\<rparr>"

text \<open>A filter whose join keeps every row of permission joined with role once.\<close>

definition every_role :: user_roles_filter where
  "every_role orgID userID teamIDs roles d pr = 1"

definition query_user1 :: "string list \<Rightarrow> GetUserPermissionsQuery" where
  "query_user1 actions = \<lparr>OrgID = 1, UserID = 1, Roles = [], TeamIDs = [], Actions = actions\<rparr>"

text \<open>
  User 1 has the admin flag and is a member of organisation 2 only, as \<^verbatim>\<open>Editor\<close>.
\<close>

definition db_admin :: db where
  "db_admin =
     \<lparr>permission = [], role = [], user_role = [], team_role = [], team_member = [], builtin_role = [],
      org_user = [\<lparr>ou_id = 1, ou_org_id = 2, ou_user_id = 1, ou_role = ''Editor''\<rparr>],
      user = [\<lparr>u_id = 1, u_is_admin = True\<rparr>],
      dialect = sqlite_like\<rparr>"

text \<open>
  User 3 is a member of organisation 2 only, as \<^verbatim>\<open>Editor\<close>, and has no role and no team.
  Organisation 1 links the builtin role \<^verbatim>\<open>Editor\<close> to role 1, which holds \<^verbatim>\<open>teams:read\<close>.
\<close>

definition db_other_org :: db where
  "db_other_org =
     \<lparr>permission = [\<lparr>p_id = 1, p_role_id = 1, p_action = ''teams:read'', p_scope = ''teams:*''\<rparr>],
      role = [\<lparr>r_id = 1, r_org_id = 1, r_name = ''custom:teams:reader''\<rparr>],
      user_role = [], team_role = [], team_member = [],
      builtin_role = [\<lparr>br_id = 1, br_role = ''Editor'', br_role_id = 1, br_org_id = 1\<rparr>],
      org_user = [\<lparr>ou_id = 1, ou_org_id = 2, ou_user_id = 3, ou_role = ''Editor''\<rparr>],
      user = [\<lparr>u_id = 3, u_is_admin = False\<rparr>],
      dialect = sqlite_like\<rparr>"

text \<open>
  User 5 has a managed role in organisation 1 (role 7) and one in organisation 2 (role 8).
  Role 7 holds a permission on a dashboard and one whose scope names user 5; role 9, a
  custom role of user 6, holds another permission whose scope names user 5.
\<close>

definition db_managed :: db where
  "db_managed =
     \<lparr>permission =
        [\<lparr>p_id = 1, p_role_id = 7, p_action = ''dashboards:read'', p_scope = ''dashboards:uid:a''\<rparr>,
         \<lparr>p_id = 2, p_role_id = 7, p_action = ''users:read'', p_scope = ''users:id:5''\<rparr>,
         \<lparr>p_id = 3, p_role_id = 8, p_action = ''dashboards:read'', p_scope = ''dashboards:uid:b''\<rparr>,
         \<lparr>p_id = 4, p_role_id = 9, p_action = ''users:write'', p_scope = ''users:id:5''\<rparr>],
      role =
        [\<lparr>r_id = 7, r_org_id = 1, r_name = ''managed:users:5:permissions''\<rparr>,
         \<lparr>r_id = 8, r_org_id = 2, r_name = ''managed:users:5:permissions''\<rparr>,
         \<lparr>r_id = 9, r_org_id = 1, r_name = ''custom:users:writer''\<rparr>],
      user_role =
        [\<lparr>ur_id = 1, ur_org_id = 1, ur_user_id = 5, ur_role_id = 7\<rparr>,
         \<lparr>ur_id = 2, ur_org_id = 2, ur_user_id = 5, ur_role_id = 8\<rparr>,
         \<lparr>ur_id = 3, ur_org_id = 1, ur_user_id = 6, ur_role_id = 9\<rparr>],
      team_role = [], team_member = [], builtin_role = [],
      org_user =
        [\<lparr>ou_id = 1, ou_org_id = 1, ou_user_id = 5, ou_role = ''Viewer''\<rparr>,
         \<lparr>ou_id = 2, ou_org_id = 2, ou_user_id = 5, ou_role = ''Editor''\<rparr>,
         \<lparr>ou_id = 3, ou_org_id = 1, ou_user_id = 6, ou_role = ''Admin''\<rparr>],
      user = [\<lparr>u_id = 5, u_is_admin = False\<rparr>, \<lparr>u_id = 6, u_is_admin = False\<rparr>],
      dialect = sqlite_like\<rparr>"

text \<open>The store \<open>db_managed\<close> without the grants of user 5 in organisation 1.\<close>

definition db_managed_org1 :: db where
  "db_managed_org1 =
     db_managed
       \<lparr>permission :=
          [\<lparr>p_id = 3, p_role_id = 8, p_action = ''dashboards:read'', p_scope = ''dashboards:uid:b''\<rparr>,
           \<lparr>p_id = 4, p_role_id = 9, p_action = ''users:write'', p_scope = ''users:id:5''\<rparr>],
        role :=
          [\<lparr>r_id = 8, r_org_id = 2, r_name = ''managed:users:5:permissions''\<rparr>,
           \<lparr>r_id = 9, r_org_id = 1, r_name = ''custom:users:writer''\<rparr>],
        user_role :=
          [\<lparr>ur_id = 2, ur_org_id = 2, ur_user_id = 5, ur_role_id = 8\<rparr>,
           \<lparr>ur_id = 3, ur_org_id = 1, ur_user_id = 6, ur_role_id = 9\<rparr>]\<rparr>"

text \<open>The store \<open>db_managed\<close> without the grants of user 5 in any organisation.\<close>

definition db_managed_global :: db where
  "db_managed_global =
     db_managed
       \<lparr>permission := [],
        role := [\<lparr>r_id = 9, r_org_id = 1, r_name = ''custom:users:writer''\<rparr>],
        user_role := [\<lparr>ur_id = 3, ur_org_id = 1, ur_user_id = 6, ur_role_id = 9\<rparr>]\<rparr>"

text \<open>A fault plan in which one statement fails and every other succeeds.\<close>

definition fail_at :: "stmt \<Rightarrow> faults" where
  "fail_at s = (\<lambda>s'. if s' = s then Some (StoreFailure ''unavailable'') else None)"

section \<open>Properties\<close>

subsection \<open>SQL operators\<close>

lemma like_percent: "escape_char L \<noteq> Some CHR ''%'' \<Longrightarrow> like L ''%'' s"
  by (cases s) auto

text \<open>
  A prefix without wildcards and without the escape character selects the strings that
  start with it, compared as the dialect compares.
\<close>

lemma like_prefix_plain:
  assumes "CHR ''%'' \<notin> set pre" "CHR ''_'' \<notin> set pre" "escape_char L \<notin> Some ` set pre"
    "escape_char L \<noteq> Some CHR ''%''"
  shows "like L (pre @ ''%'') s = prefix (map (fold_case L) pre) (map (fold_case L) s)"
  using assms
proof (induction pre arbitrary: s)
  case Nil
  then show ?case using like_percent by simp
next
  case (Cons c pre)
  obtain c' pat where p: "pre @ ''%'' = c' # pat"
    by (cases "pre @ ''%''") auto
  have IH: "like L (c' # pat) t = prefix (map (fold_case L) pre) (map (fold_case L) t)" for t
    using Cons.IH [of t] Cons.prems unfolding p by auto
  show ?case
  proof (cases s)
    case Nil
    then show ?thesis using Cons.prems p by auto
  next
    case (Cons x s')
    then show ?thesis using Cons.prems p IH [of s'] by auto
  qed
qed

subsection \<open>GetUserPermissions\<close>

text \<open>
  C7: for every organisation and every list of actions, \<^verbatim>\<open>GetUserPermissions\<close> with
  \<^verbatim>\<open>UserID = 0\<close>, no team and no role returns the empty list and no error. It does so
  whatever the store holds, whatever the filter is and even when the session's statements
  would fail: nothing else is read.
\<close>

theorem GetUserPermissions_no_identity:
  "GetUserPermissions UserRolesFilter f d
     \<lparr>OrgID = orgID, UserID = 0, Roles = [], TeamIDs = [], Actions = actions\<rparr> = ([], None)"
  by (simp add: GetUserPermissions_def WithDbSession_def GetUserPermissions_callback_def)

theorem GetUserPermissions_no_identity_witness:
  "GetUserPermissions every_role (\<lambda>_. Some (StoreFailure ''down'')) db_grants
     \<lparr>OrgID = 1, UserID = 0, Roles = [], TeamIDs = [], Actions = [''teams:read'']\<rparr> = ([], None)"
  by (rule GetUserPermissions_no_identity)

text \<open>
  C8: when \<^verbatim>\<open>Actions\<close> is not empty, the action of every permission returned is a member
  of \<^verbatim>\<open>Actions\<close>, by equality of strings; when \<^verbatim>\<open>Actions\<close> is empty (and the call is
  not the short-circuit of C7 and the statement succeeds), the result is every row of the
  join, with no restriction on the action.
\<close>

theorem GetUserPermissions_actions:
  "(Actions query \<noteq> [] \<longrightarrow>
      (\<forall>p \<in> set (fst (GetUserPermissions UserRolesFilter f d query)). Action p \<in> set (Actions query))) \<and>
   (Actions query = [] \<longrightarrow> \<not> (UserID query = 0 \<and> TeamIDs query = [] \<and> Roles query = []) \<longrightarrow>
      f SelectUserPermissions = None \<longrightarrow>
      GetUserPermissions UserRolesFilter f d query =
        (map to_Permission (user_permission_rows UserRolesFilter d query), None))"
  by (auto simp add: GetUserPermissions_def WithDbSession_def GetUserPermissions_callback_def Let_def
      to_Permission_def split: option.splits)

lemma user_permission_rows_db_grants:
  "user_permission_rows every_role db_grants query =
     [(\<lparr>p_id = 1, p_role_id = 1, p_action = ''teams:read'', p_scope = ''teams:*''\<rparr>,
       \<lparr>r_id = 1, r_org_id = 1, r_name = ''custom:teams:reader''\<rparr>)]"
  by (simp add: user_permission_rows_def db_grants_def every_role_def)

lemma GetUserPermissions_db_grants_read:
  "GetUserPermissions every_role no_faults db_grants (query_user1 [''teams:read'']) =
     ([\<lparr>Action = ''teams:read'', Scope = ''teams:*''\<rparr>], None)"
  by (simp add: GetUserPermissions_def WithDbSession_def GetUserPermissions_callback_def Let_def
      user_permission_rows_db_grants to_Permission_def query_user1_def no_faults_def)

theorem GetUserPermissions_actions_witness:
  "Actions (query_user1 [''teams:read'']) \<noteq> [] \<and>
   fst (GetUserPermissions every_role no_faults db_grants (query_user1 [''teams:read''])) =
     [\<lparr>Action = ''teams:read'', Scope = ''teams:*''\<rparr>] \<and>
   Action \<lparr>Action = ''teams:read'', Scope = ''teams:*''\<rparr> \<in> set (Actions (query_user1 [''teams:read''])) \<and>
   Actions (query_user1 []) = [] \<and>
   GetUserPermissions every_role no_faults db_grants (query_user1 []) =
     ([\<lparr>Action = ''teams:read'', Scope = ''teams:*''\<rparr>], None)"
proof -
  have a: "Actions (query_user1 [''teams:read'']) \<noteq> []"
    by (simp add: query_user1_def)
  have b: "Actions (query_user1 []) = []"
    and c: "\<not> (UserID (query_user1 []) = 0 \<and> TeamIDs (query_user1 []) = [] \<and> Roles (query_user1 []) = [])"
    and n: "no_faults SelectUserPermissions = None"
    by (simp_all add: query_user1_def no_faults_def)
  have r: "map to_Permission (user_permission_rows every_role db_grants (query_user1 [])) =
             [\<lparr>Action = ''teams:read'', Scope = ''teams:*''\<rparr>]"
    by (simp add: user_permission_rows_db_grants to_Permission_def)
  from GetUserPermissions_actions [of "query_user1 [''teams:read'']" every_role no_faults db_grants] a
  have 1: "\<forall>p \<in> set (fst (GetUserPermissions every_role no_faults db_grants (query_user1 [''teams:read'']))).
             Action p \<in> set (Actions (query_user1 [''teams:read'']))"
    by blast
  from GetUserPermissions_actions [of "query_user1 []" every_role no_faults db_grants] b c n
  have 2: "GetUserPermissions every_role no_faults db_grants (query_user1 []) =
             (map to_Permission (user_permission_rows every_role db_grants (query_user1 [])), None)"
    by blast
  show ?thesis
    using a b 1 2 r GetUserPermissions_db_grants_read by simp
qed

subsection \<open>GetUsersPermissions\<close>

lemma slice_mapped_loop:
  "slice_of (mapped_loop rows m u) =
     slice_of (m u) @ map (\<lambda>row. \<lparr>Action = rbac_Action row, Scope = rbac_Scope row\<rparr>)
                       (filter (\<lambda>row. rbac_UserID row = u) rows)"
  by (induction rows arbitrary: m) (auto simp: slice_of_def)




















text \<open>For a prefix without wildcards the outer \<^verbatim>\<open>WHERE\<close> is the prefix test.\<close>

lemma up_where_plain_prefix:
  "CHR ''%'' \<notin> set actionPrefix \<Longrightarrow> CHR ''_'' \<notin> set actionPrefix \<Longrightarrow>
   escape_char L \<notin> Some ` set actionPrefix \<Longrightarrow> escape_char L \<noteq> Some CHR ''%'' \<Longrightarrow>
   up_where L orgID actionPrefix (u, org_id, a, s) \<longleftrightarrow>
     (org_id = GlobalOrgID \<or> org_id = orgID) \<and>
     prefix (map (fold_case L) actionPrefix) (map (fold_case L) a)"
  by (simp add: up_where_def like_prefix_plain)

lemma GetUsersPermissions_cases:
  "GetUsersPermissions f d orgID actionPrefix =
     (case f SelectUsersPermissions of
        Some e \<Rightarrow> (Map.empty, Map.empty, Some e)
      | None \<Rightarrow>
         (case f SelectUsersRoles of
            Some e \<Rightarrow> (mapped_loop (select_permissions d orgID actionPrefix) Map.empty, Map.empty, Some e)
          | None \<Rightarrow> (mapped_loop (select_permissions d orgID actionPrefix) Map.empty,
                      roles_loop (select_roles d orgID) Map.empty, None)))"
  by (simp add: GetUsersPermissions_def WithDbSession_def GetUsersPermissions_callback_def Let_def
      split: option.splits)

lemma count_list_map_filter: "count_list (map g xs) y = length (filter (\<lambda>x. g x = y) xs)"
  by (induction xs) auto

lemma length_filter_remdups: "length (filter P (remdups xs)) = card {x \<in> set xs. P x}"
proof -
  have "length (filter P (remdups xs)) = card ({x. P x} \<inter> set (remdups xs))"
    by (rule distinct_length_filter) simp
  also have "{x. P x} \<inter> set (remdups xs) = {x \<in> set xs. P x}" by auto
  finally show ?thesis .
qed

lemma card_org_ids:
  "card {x \<in> set rows. up_where L orgID actionPrefix x \<and> fst x = u \<and> fst (snd (snd x)) = a \<and> snd (snd (snd x)) = s}
     = card {org_id. (u, org_id, a, s) \<in> set rows \<and> up_where L orgID actionPrefix (u, org_id, a, s)}"
proof -
  have "{x \<in> set rows. up_where L orgID actionPrefix x \<and> fst x = u \<and> fst (snd (snd x)) = a \<and> snd (snd (snd x)) = s}
        = (\<lambda>org_id. (u, org_id, a, s)) `
            {org_id. (u, org_id, a, s) \<in> set rows \<and> up_where L orgID actionPrefix (u, org_id, a, s)}"
    by (auto simp: image_iff)
  moreover have "inj_on (\<lambda>org_id. (u, org_id, a, s)) A" for A :: "int set"
    by (simp add: inj_on_def)
  ultimately show ?thesis by (simp add: card_image)
qed

lemma org_ids_le_2:
  "card {org_id. (u, org_id, a, s) \<in> set rows \<and> up_where L orgID actionPrefix (u, org_id, a, s)} \<le> 2"
proof -
  have "{org_id. (u, org_id, a, s) \<in> set rows \<and> up_where L orgID actionPrefix (u, org_id, a, s)}
          \<subseteq> {GlobalOrgID, orgID}"
    by (auto simp: up_where_def)
  then have "card {org_id. (u, org_id, a, s) \<in> set rows \<and> up_where L orgID actionPrefix (u, org_id, a, s)}
          \<le> card {GlobalOrgID, orgID}"
    by (intro card_mono) simp_all
  also have "\<dots> \<le> 2" by (simp add: card_insert_if)
  finally show ?thesis .
qed

lemma count_select_permissions:
  "count_list (slice_of (mapped_loop (select_permissions d orgID actionPrefix) Map.empty u))
       \<lparr>Action = a, Scope = s\<rparr>
     = card {org_id. (u, org_id, a, s) \<in> set (grant_rows d) \<and> up_where (dialect d) orgID actionPrefix (u, org_id, a, s)}"
proof -
  have "count_list (slice_of (mapped_loop (select_permissions d orgID actionPrefix) Map.empty u))
          \<lparr>Action = a, Scope = s\<rparr>
        = length (filter (\<lambda>x. up_where (dialect d) orgID actionPrefix x \<and> fst x = u \<and> fst (snd (snd x)) = a \<and>
                             snd (snd (snd x)) = s) (remdups (grant_rows d)))"
    unfolding slice_mapped_loop select_permissions_def up_def
    by (simp add: slice_of_def count_list_map_filter filter_map comp_def case_prod_beta conj_commute conj_left_commute)
  then show ?thesis
    by (simp only: length_filter_remdups card_org_ids)
qed

lemma grant_rows_dialect: "grant_rows (d\<lparr>dialect := L\<rparr>) = grant_rows d"
  by (simp add: grant_rows_def user_role_branch_def team_role_branch_def builtin_role_branch_def
      admin_branch_def cong: if_cong)

lemma grant_rows_db_grants:
  "grant_rows db_grants = [(1, 1, ''teams:read'', ''teams:*''), (1, 1, ''teams:read'', ''teams:*'')]"
  by (simp add: grant_rows_def user_role_branch_def team_role_branch_def builtin_role_branch_def
      admin_branch_def db_grants_def)


lemma dialect_examples:
  "dialect db_grants = sqlite_like" "dialect db_other_org = sqlite_like"
  by (simp_all add: db_grants_def db_other_org_def)

lemma select_permissions_db_grants:
  "select_permissions db_grants 1 ''teams'' =
     [\<lparr>rbac_UserID = 1, rbac_Action = ''teams:read'', rbac_Scope = ''teams:*''\<rparr>]"
  by (simp add: select_permissions_def up_def grant_rows_db_grants up_where_def GlobalOrgID_def
      dialect_examples sqlite_like_def fold_case_def ascii_lower_def)

lemma select_permissions_db_grants_wildcard:
  "select_permissions db_grants 1 ''team_'' =
     [\<lparr>rbac_UserID = 1, rbac_Action = ''teams:read'', rbac_Scope = ''teams:*''\<rparr>]"
  by (simp add: select_permissions_def up_def grant_rows_db_grants up_where_def GlobalOrgID_def
      dialect_examples sqlite_like_def fold_case_def ascii_lower_def)

lemma select_permissions_db_grants_wildcard_postgres:
  "select_permissions (db_grants\<lparr>dialect := postgres_like\<rparr>) 1 ''team_'' =
     [\<lparr>rbac_UserID = 1, rbac_Action = ''teams:read'', rbac_Scope = ''teams:*''\<rparr>]"
  by (simp add: select_permissions_def up_def grant_rows_dialect grant_rows_db_grants up_where_def
      GlobalOrgID_def postgres_like_def fold_case_def)



lemma select_roles_db_grants:
  "select_roles db_grants 1 = [\<lparr>uor_UserID = 1, OrgRole = ''Viewer'', IsAdmin = False\<rparr>]"
  by (simp add: select_roles_def user_left_join_org_user_def roles_where_def db_grants_def)


lemma select_roles_db_admin:
  "select_roles db_admin 1 = [\<lparr>uor_UserID = 1, OrgRole = ''Editor'', IsAdmin = True\<rparr>]"
  by (simp add: select_roles_def user_left_join_org_user_def roles_where_def db_admin_def)

lemma GetUsersPermissions_db_grants:
  "GetUsersPermissions no_faults db_grants 1 ''teams'' =
     ([1 \<mapsto> [\<lparr>Action = ''teams:read'', Scope = ''teams:*''\<rparr>]], [1 \<mapsto> [''Viewer'']], None)"
  by (simp add: GetUsersPermissions_cases no_faults_def select_permissions_db_grants select_roles_db_grants
      slice_of_def roles_step_def)







text \<open>
  C3, as the code has it: the branches are joined by \<^verbatim>\<open>UNION\<close>, which keeps one copy of
  each row \<open>(user_id, org_id, action, scope)\<close>. In a successful call, a permission
  \<open>(a, s)\<close> is in the list of user \<open>u\<close> once for each organisation id (the global one or the
  requested one) under which some branch reaches it, however many branches do: at most
  twice.
\<close>

theorem GetUsersPermissions_multiplicity:
  assumes "GetUsersPermissions f d orgID actionPrefix = (mapped, roles, None)"
  shows "count_list (slice_of (mapped u)) \<lparr>Action = a, Scope = s\<rparr> =
           card {org_id. (u, org_id, a, s) \<in> set (grant_rows d) \<and>
                         up_where (dialect d) orgID actionPrefix (u, org_id, a, s)} \<and>
         count_list (slice_of (mapped u)) \<lparr>Action = a, Scope = s\<rparr> \<le> 2"
proof -
  have "mapped = mapped_loop (select_permissions d orgID actionPrefix) Map.empty"
    using assms by (auto simp: GetUsersPermissions_cases split: option.splits)
  then show ?thesis
    using count_select_permissions [of d orgID actionPrefix u a s]
      org_ids_le_2 [of u a s "grant_rows d" "dialect d" orgID actionPrefix]
    by simp
qed

theorem GetUsersPermissions_multiplicity_witness:
  "GetUsersPermissions no_faults db_grants 1 ''teams'' =
     ([1 \<mapsto> [\<lparr>Action = ''teams:read'', Scope = ''teams:*''\<rparr>]], [1 \<mapsto> [''Viewer'']], None) \<and>
   count_list (slice_of ([1 \<mapsto> [\<lparr>Action = ''teams:read'', Scope = ''teams:*''\<rparr>]] (1::int)))
       \<lparr>Action = ''teams:read'', Scope = ''teams:*''\<rparr> =
     card {org_id. (1, org_id, ''teams:read'', ''teams:*'') \<in> set (grant_rows db_grants) \<and>
                   up_where (dialect db_grants) 1 ''teams'' (1, org_id, ''teams:read'', ''teams:*'')} \<and>
   count_list (slice_of ([1 \<mapsto> [\<lparr>Action = ''teams:read'', Scope = ''teams:*''\<rparr>]] (1::int)))
       \<lparr>Action = ''teams:read'', Scope = ''teams:*''\<rparr> = 1"
  using GetUsersPermissions_multiplicity [OF GetUsersPermissions_db_grants, of 1 "''teams:read''" "''teams:*''"]
    GetUsersPermissions_db_grants
  by (simp add: slice_of_def)

text \<open>
  C3, as the claim states it, fails: in \<open>db_grants\<close> the permission reaches user 1 in
  organisation 1 through the user-role branch and through the team-role branch, two rows
  of the branches, and the list of user 1 holds it once.
\<close>

theorem GetUsersPermissions_multiplicity_counterexample:
  "(1, 1, ''teams:read'', ''teams:*'') \<in> set (user_role_branch db_grants) \<and>
   (1, 1, ''teams:read'', ''teams:*'') \<in> set (team_role_branch db_grants) \<and>
   count_list (grant_rows db_grants) (1, 1, ''teams:read'', ''teams:*'') = 2 \<and>
   count_list (slice_of (fst (GetUsersPermissions no_faults db_grants 1 ''teams'') 1))
     \<lparr>Action = ''teams:read'', Scope = ''teams:*''\<rparr> = 1"
  by (simp add: GetUsersPermissions_db_grants grant_rows_db_grants slice_of_def)
    (simp add: user_role_branch_def team_role_branch_def db_grants_def)

text \<open>
  C6: a prefix without \<^verbatim>\<open>%\<close>, \<^verbatim>\<open>_\<close> and the escape character selects the actions that
  start with it; in a prefix that holds one of them the character is a wildcard of
  \<^verbatim>\<open>LIKE\<close>. With the prefix \<^verbatim>\<open>team_\<close> the store \<open>db_grants\<close> returns \<^verbatim>\<open>teams:read\<close> for
  user 1, an action that does not start with \<^verbatim>\<open>team_\<close>, on SQLite and on PostgreSQL alike.
\<close>

theorem GetUsersPermissions_prefix_wildcard:
  "\<not> prefix ''team_'' ''teams:read'' \<and>
   fst (GetUsersPermissions no_faults db_grants 1 ''team_'') 1 =
     Some [\<lparr>Action = ''teams:read'', Scope = ''teams:*''\<rparr>] \<and>
   fst (GetUsersPermissions no_faults (db_grants\<lparr>dialect := postgres_like\<rparr>) 1 ''team_'') 1 =
     Some [\<lparr>Action = ''teams:read'', Scope = ''teams:*''\<rparr>]"
  by (simp add: GetUsersPermissions_cases no_faults_def select_permissions_db_grants_wildcard
      select_permissions_db_grants_wildcard_postgres slice_of_def)

text \<open>
  C2: in \<open>db_admin\<close> user 1 holds no role in organisation 1; the roles map for organisation 1
  gives the user \<^verbatim>\<open>Editor\<close>, the role held in organisation 2, before \<^verbatim>\<open>Grafana Admin\<close>.
\<close>

theorem GetUsersPermissions_roles_other_org:
  "filter (\<lambda>ou. ou_org_id ou = 1) (org_user db_admin) = [] \<and>
   fst (snd (GetUsersPermissions no_faults db_admin 1 '''')) 1 = Some [''Editor'', ''Grafana Admin'']"
  by (simp add: GetUsersPermissions_cases no_faults_def select_roles_db_admin slice_of_def roles_step_def
      RoleGrafanaAdmin_def) (simp add: db_admin_def)

subsection \<open>DeleteUserPermissions\<close>

lemma role_after_scoped [simp]: "role (after_scoped orgID userID d) = role d"
  by (simp add: after_scoped_def delete_permissions_scoped_def delete_user_roles_def)

lemma select_role_ids_after_scoped [simp]:
  "select_role_ids orgID userID (after_scoped orgID' userID' d) = select_role_ids orgID userID d"
  by (simp add: select_role_ids_def)

lemma DeleteUserPermissions_callback_cases:
  "DeleteUserPermissions_callback f orgID userID d =
     (case f DeleteUserRoles of
        Some e \<Rightarrow> ((), Some e, d)
      | None \<Rightarrow>
         (case (if orgID = GlobalOrgID then f DeleteUserScopedPermissions else None) of
            Some e \<Rightarrow> ((), Some e, delete_user_roles orgID userID d)
          | None \<Rightarrow>
             (case f SelectManagedRoles of
                Some e \<Rightarrow> ((), Some e, after_scoped orgID userID d)
              | None \<Rightarrow>
                 if select_role_ids orgID userID d = [] then ((), None, after_scoped orgID userID d)
                 else
                   (case f DeleteManagedPermissions of
                      Some e \<Rightarrow> ((), Some e, after_scoped orgID userID d)
                    | None \<Rightarrow>
                       (case f DeleteManagedRoles of
                          Some e \<Rightarrow> ((), Some e,
                            delete_permissions_of_roles (select_role_ids orgID userID d) (after_scoped orgID userID d))
                        | None \<Rightarrow> ((), None,
                            delete_roles (select_role_ids orgID userID d)
                              (delete_permissions_of_roles (select_role_ids orgID userID d)
                                 (after_scoped orgID userID d))))))))"
proof -
  have r: "select_role_ids orgID userID
             (if orgID = GlobalOrgID
              then delete_permissions_scoped (Scope_join [''users'', ''id'', FormatInt userID])
                     (delete_user_roles orgID userID d)
              else delete_user_roles orgID userID d) = select_role_ids orgID userID d"
    using select_role_ids_after_scoped [of orgID userID orgID userID d]
    by (simp only: after_scoped_def)
  show ?thesis
    unfolding DeleteUserPermissions_callback_def Let_def r after_scoped_def length_0_conv
    by (simp split: option.split)
qed

lemma delete_nothing:
  "delete_roles [] (delete_permissions_of_roles [] d) = d"
  by (simp add: delete_roles_def delete_permissions_of_roles_def)

lemma DeleteUserPermissions_success:
  assumes "DeleteUserPermissions f orgID userID d = (None, d')"
  shows "d' = delete_roles (select_role_ids orgID userID d)
                (delete_permissions_of_roles (select_role_ids orgID userID d)
                   (after_scoped orgID userID d))"
  using assms
  by (auto simp: DeleteUserPermissions_def WithDbSession_def DeleteUserPermissions_callback_cases
      delete_nothing split: option.splits if_splits)

lemma DeleteUserPermissions_failure:
  assumes "DeleteUserPermissions f orgID userID d = (Some e, d')"
  shows "d' = d"
  using assms
  by (auto simp: DeleteUserPermissions_def WithDbSession_def split: prod.splits option.splits)

lemma DeleteUserPermissions_error:
  "fst (DeleteUserPermissions f orgID userID d) = fst (snd (DeleteUserPermissions_callback f orgID userID d))"
  by (auto simp: DeleteUserPermissions_def WithDbSession_def split: prod.splits option.splits)

lemma user_role_after:
  "user_role (delete_roles ids (delete_permissions_of_roles ids (after_scoped orgID userID d))) =
     filter (\<lambda>ur. \<not> (ur_user_id ur = userID \<and> (orgID = GlobalOrgID \<or> ur_org_id ur = orgID))) (user_role d)"
  by (auto simp: delete_roles_def delete_permissions_of_roles_def after_scoped_def delete_user_roles_def
      delete_permissions_scoped_def intro!: filter_cong)

lemma permission_after:
  "permission (delete_roles ids (delete_permissions_of_roles ids (after_scoped orgID userID d))) =
     filter (\<lambda>p. p_role_id p \<notin> set ids \<and>
                 \<not> (orgID = GlobalOrgID \<and> p_scope p = Scope_join [''users'', ''id'', FormatInt userID]))
       (permission d)"
  by (auto simp: delete_roles_def delete_permissions_of_roles_def after_scoped_def delete_user_roles_def
      delete_permissions_scoped_def intro!: filter_cong)

lemma role_after:
  "role (delete_roles ids (delete_permissions_of_roles ids (after_scoped orgID userID d))) =
     filter (\<lambda>r. r_id r \<notin> set ids) (role d)"
  by (simp add: delete_roles_def delete_permissions_of_roles_def)

lemma others_after:
  "team_role (delete_roles ids (delete_permissions_of_roles ids (after_scoped orgID userID d))) = team_role d"
  "team_member (delete_roles ids (delete_permissions_of_roles ids (after_scoped orgID userID d))) = team_member d"
  "builtin_role (delete_roles ids (delete_permissions_of_roles ids (after_scoped orgID userID d))) = builtin_role d"
  "org_user (delete_roles ids (delete_permissions_of_roles ids (after_scoped orgID userID d))) = org_user d"
  "user (delete_roles ids (delete_permissions_of_roles ids (after_scoped orgID userID d))) = user d"
  by (simp_all add: delete_roles_def delete_permissions_of_roles_def after_scoped_def delete_user_roles_def
      delete_permissions_scoped_def)

lemma other_org_role_kept:
  assumes "distinct (map r_id (role d))" "r \<in> set (role d)" "r_org_id r \<noteq> orgID" "orgID \<noteq> GlobalOrgID"
  shows "r_id r \<notin> set (select_role_ids orgID userID d)"
proof
  assume "r_id r \<in> set (select_role_ids orgID userID d)"
  then obtain r' where r': "r' \<in> set (role d)" "r_org_id r' = orgID" "r_id r' = r_id r"
    using assms(4) by (auto simp: select_role_ids_def)
  from assms(1) have "inj_on r_id (set (role d))"
    by (simp add: distinct_map)
  with r' assms(2) have "r' = r"
    by (auto dest: inj_onD)
  with r'(2) assms(3) show False by simp
qed

lemma FormatInt_5: "FormatInt 5 = ''5''"
  by (simp add: FormatInt_def digits.simps [of 5] digit_char_def)

lemma ManagedUserRoleName_5: "ManagedUserRoleName 5 = ''managed:users:5:permissions''"
  by (simp add: ManagedUserRoleName_def FormatInt_5)

lemma select_role_ids_db_managed:
  "select_role_ids 1 5 db_managed = [7]" "select_role_ids 0 5 db_managed = [7, 8]"
  by (simp_all add: select_role_ids_def ManagedUserRoleName_5 db_managed_def GlobalOrgID_def)

lemma after_scoped_db_managed_1:
  "after_scoped 1 5 db_managed =
     db_managed\<lparr>user_role :=
        [\<lparr>ur_id = 2, ur_org_id = 2, ur_user_id = 5, ur_role_id = 8\<rparr>,
         \<lparr>ur_id = 3, ur_org_id = 1, ur_user_id = 6, ur_role_id = 9\<rparr>]\<rparr>"
  by (simp add: after_scoped_def delete_user_roles_def GlobalOrgID_def db_managed_def)

lemma DeleteUserPermissions_db_managed_org1:
  "DeleteUserPermissions no_faults 1 5 db_managed = (None, db_managed_org1)"
  by (simp add: DeleteUserPermissions_def WithDbSession_def DeleteUserPermissions_callback_cases
      no_faults_def GlobalOrgID_def select_role_ids_db_managed after_scoped_db_managed_1
      delete_roles_def delete_permissions_of_roles_def db_managed_org1_def)
    (simp add: db_managed_def)

lemma DeleteUserPermissions_db_managed_global:
  "DeleteUserPermissions no_faults 0 5 db_managed = (None, db_managed_global)"
  by (simp add: DeleteUserPermissions_def WithDbSession_def DeleteUserPermissions_callback_cases
      no_faults_def GlobalOrgID_def select_role_ids_db_managed after_scoped_def FormatInt_5
      delete_user_roles_def delete_permissions_scoped_def
      delete_roles_def delete_permissions_of_roles_def db_managed_global_def)
    (simp add: db_managed_def)

text \<open>
  Without the session's rollback the callback is not atomic: when the last statement
  fails, the user-role rows and the permission rows of the managed role are gone and the
  managed role is still there. What follows rests on the rollback of \<open>WithDbSession\<close>.
\<close>

lemma DeleteUserPermissions_callback_partial:
  "DeleteUserPermissions_callback (fail_at DeleteManagedRoles) 1 5 db_managed =
     ((), Some (StoreFailure ''unavailable''),
      db_managed
       \<lparr>permission :=
          [\<lparr>p_id = 3, p_role_id = 8, p_action = ''dashboards:read'', p_scope = ''dashboards:uid:b''\<rparr>,
           \<lparr>p_id = 4, p_role_id = 9, p_action = ''users:write'', p_scope = ''users:id:5''\<rparr>],
        user_role :=
          [\<lparr>ur_id = 2, ur_org_id = 2, ur_user_id = 5, ur_role_id = 8\<rparr>,
           \<lparr>ur_id = 3, ur_org_id = 1, ur_user_id = 6, ur_role_id = 9\<rparr>]\<rparr>)"
  by (simp add: DeleteUserPermissions_callback_cases fail_at_def GlobalOrgID_def
      select_role_ids_db_managed after_scoped_db_managed_1 delete_permissions_of_roles_def)
    (simp add: db_managed_def)

text \<open>
  C1: \<^verbatim>\<open>DeleteUserPermissions\<close> is atomic. Whichever of its five statements fails (deleting
  the user-role rows, deleting the permission rows scoped to the user, looking up the
  managed role, deleting the managed role's permission rows, deleting the managed role),
  once the statements before it have succeeded, the operation returns the error of that
  statement and the store is as it was; and whenever the operation returns an error, the
  store is unchanged and the error is that of one of the five statements.
\<close>

theorem DeleteUserPermissions_atomic:
  "(f DeleteUserRoles = Some e \<longrightarrow> DeleteUserPermissions f orgID userID d = (Some e, d)) \<and>
   (f DeleteUserRoles = None \<and> orgID = GlobalOrgID \<and> f DeleteUserScopedPermissions = Some e \<longrightarrow>
      DeleteUserPermissions f orgID userID d = (Some e, d)) \<and>
   (f DeleteUserRoles = None \<and> (orgID = GlobalOrgID \<longrightarrow> f DeleteUserScopedPermissions = None) \<and>
    f SelectManagedRoles = Some e \<longrightarrow>
      DeleteUserPermissions f orgID userID d = (Some e, d)) \<and>
   (f DeleteUserRoles = None \<and> (orgID = GlobalOrgID \<longrightarrow> f DeleteUserScopedPermissions = None) \<and>
    f SelectManagedRoles = None \<and> select_role_ids orgID userID d \<noteq> [] \<and>
    f DeleteManagedPermissions = Some e \<longrightarrow>
      DeleteUserPermissions f orgID userID d = (Some e, d)) \<and>
   (f DeleteUserRoles = None \<and> (orgID = GlobalOrgID \<longrightarrow> f DeleteUserScopedPermissions = None) \<and>
    f SelectManagedRoles = None \<and> select_role_ids orgID userID d \<noteq> [] \<and>
    f DeleteManagedPermissions = None \<and> f DeleteManagedRoles = Some e \<longrightarrow>
      DeleteUserPermissions f orgID userID d = (Some e, d)) \<and>
   (\<forall>e' d'. DeleteUserPermissions f orgID userID d = (Some e', d') \<longrightarrow>
      d' = d \<and> e' \<in> the ` f ` {DeleteUserRoles, DeleteUserScopedPermissions, SelectManagedRoles, DeleteManagedPermissions, DeleteManagedRoles})"
proof -
  have scoped: "(if orgID = GlobalOrgID then f DeleteUserScopedPermissions else None) = None"
    if "orgID = GlobalOrgID \<longrightarrow> f DeleteUserScopedPermissions = None"
    using that by simp
  have 1: "DeleteUserPermissions f orgID userID d = (Some e, d)" if "f DeleteUserRoles = Some e"
    using that
    by (simp add: DeleteUserPermissions_def WithDbSession_def DeleteUserPermissions_callback_cases)
  have 2: "DeleteUserPermissions f orgID userID d = (Some e, d)"
    if "f DeleteUserRoles = None" "orgID = GlobalOrgID" "f DeleteUserScopedPermissions = Some e"
    using that
    by (simp add: DeleteUserPermissions_def WithDbSession_def DeleteUserPermissions_callback_cases)
  have 3: "DeleteUserPermissions f orgID userID d = (Some e, d)"
    if "f DeleteUserRoles = None" "orgID = GlobalOrgID \<longrightarrow> f DeleteUserScopedPermissions = None"
      "f SelectManagedRoles = Some e"
    using that(1,3) scoped [OF that(2)]
    by (simp only: DeleteUserPermissions_def WithDbSession_def DeleteUserPermissions_callback_cases
        option.case prod.case)
  have 4: "DeleteUserPermissions f orgID userID d = (Some e, d)"
    if "f DeleteUserRoles = None" "orgID = GlobalOrgID \<longrightarrow> f DeleteUserScopedPermissions = None"
      "f SelectManagedRoles = None" "select_role_ids orgID userID d \<noteq> []"
      "f DeleteManagedPermissions = Some e"
    using that(1,3,4,5) scoped [OF that(2)]
    by (simp only: DeleteUserPermissions_def WithDbSession_def DeleteUserPermissions_callback_cases
        option.case prod.case if_False)
  have 5: "DeleteUserPermissions f orgID userID d = (Some e, d)"
    if "f DeleteUserRoles = None" "orgID = GlobalOrgID \<longrightarrow> f DeleteUserScopedPermissions = None"
      "f SelectManagedRoles = None" "select_role_ids orgID userID d \<noteq> []"
      "f DeleteManagedPermissions = None" "f DeleteManagedRoles = Some e"
    using that(1,3,4,5,6) scoped [OF that(2)]
    by (simp only: DeleteUserPermissions_def WithDbSession_def DeleteUserPermissions_callback_cases
        option.case prod.case if_False)
  have 6: "d' = d \<and> e' \<in> the ` f ` {DeleteUserRoles, DeleteUserScopedPermissions, SelectManagedRoles,
                                      DeleteManagedPermissions, DeleteManagedRoles}"
    if r: "DeleteUserPermissions f orgID userID d = (Some e', d')" for e' d'
  proof
    show "d' = d" by (rule DeleteUserPermissions_failure [OF r])
    have "fst (snd (DeleteUserPermissions_callback f orgID userID d)) = Some e'"
      using r DeleteUserPermissions_error [of f orgID userID d] by simp
    then have "f DeleteUserRoles = Some e' \<or> f DeleteUserScopedPermissions = Some e' \<or>
        f SelectManagedRoles = Some e' \<or> f DeleteManagedPermissions = Some e' \<or>
        f DeleteManagedRoles = Some e'"
      unfolding DeleteUserPermissions_callback_cases
      by (simp split: option.splits if_splits)
    then show "e' \<in> the ` f ` {DeleteUserRoles, DeleteUserScopedPermissions, SelectManagedRoles,
                                  DeleteManagedPermissions, DeleteManagedRoles}"
      by (auto simp: image_iff)
  qed
  show ?thesis
    using 1 2 3 4 5 6 by blast
qed

theorem DeleteUserPermissions_atomic_witness:
  "fail_at DeleteManagedRoles DeleteManagedRoles = Some (StoreFailure ''unavailable'') \<and>
   select_role_ids 1 5 db_managed \<noteq> [] \<and>
   DeleteUserPermissions (fail_at DeleteManagedRoles) 1 5 db_managed =
     (Some (StoreFailure ''unavailable''), db_managed)"
proof -
  have h: "fail_at DeleteManagedRoles DeleteUserRoles = None \<and>
        (1 = GlobalOrgID \<longrightarrow> fail_at DeleteManagedRoles DeleteUserScopedPermissions = None) \<and>
        fail_at DeleteManagedRoles SelectManagedRoles = None \<and> select_role_ids 1 5 db_managed \<noteq> [] \<and>
        fail_at DeleteManagedRoles DeleteManagedPermissions = None \<and>
        fail_at DeleteManagedRoles DeleteManagedRoles = Some (StoreFailure ''unavailable'')"
    by (simp add: fail_at_def select_role_ids_db_managed)
  note t = DeleteUserPermissions_atomic [of "fail_at DeleteManagedRoles" "StoreFailure ''unavailable''" 1 5 db_managed]
  note k = t [THEN conjunct2, THEN conjunct2, THEN conjunct2, THEN conjunct2, THEN conjunct1, THEN mp, OF h]
  show ?thesis using h k by simp
qed

text \<open>
  C4: when the lookup finds no managed role for the user, and the statements up to the
  lookup succeed, the operation returns success and the store is the one the first two
  statements leave: no role and no permission of a role is deleted. In particular, after a
  successful call no managed role is found, and a second call returns success and leaves
  the store as the first call left it.
\<close>

theorem DeleteUserPermissions_idempotent:
  "(select_role_ids orgID userID d = [] \<and> f DeleteUserRoles = None \<and>
    (orgID = GlobalOrgID \<longrightarrow> f DeleteUserScopedPermissions = None) \<and> f SelectManagedRoles = None \<longrightarrow>
      DeleteUserPermissions f orgID userID d = (None, after_scoped orgID userID d)) \<and>
   (DeleteUserPermissions f orgID userID d = (None, d') \<and> f' DeleteUserRoles = None \<and>
    (orgID = GlobalOrgID \<longrightarrow> f' DeleteUserScopedPermissions = None) \<and> f' SelectManagedRoles = None \<longrightarrow>
      select_role_ids orgID userID d' = [] \<and> DeleteUserPermissions f' orgID userID d' = (None, d'))"
proof (intro conjI impI; (elim conjE)?)
  assume a: "select_role_ids orgID userID d = []" "f DeleteUserRoles = None" "f SelectManagedRoles = None"
    and "orgID = GlobalOrgID \<longrightarrow> f DeleteUserScopedPermissions = None"
  then have "(if orgID = GlobalOrgID then f DeleteUserScopedPermissions else None) = None"
    by simp
  with a show "DeleteUserPermissions f orgID userID d = (None, after_scoped orgID userID d)"
    by (simp only: DeleteUserPermissions_def WithDbSession_def DeleteUserPermissions_callback_cases
        option.case prod.case if_True simp_thms)
next
  assume s: "DeleteUserPermissions f orgID userID d = (None, d')"
  let ?ids = "select_role_ids orgID userID d"
  have d': "d' = delete_roles ?ids (delete_permissions_of_roles ?ids (after_scoped orgID userID d))"
    by (rule DeleteUserPermissions_success [OF s])
  show none: "select_role_ids orgID userID d' = []"
    unfolding d'
    by (auto simp: select_role_ids_def delete_roles_def delete_permissions_of_roles_def filter_empty_conv)
  assume f': "f' DeleteUserRoles = None" "f' SelectManagedRoles = None"
    and "orgID = GlobalOrgID \<longrightarrow> f' DeleteUserScopedPermissions = None"
  then have sc: "(if orgID = GlobalOrgID then f' DeleteUserScopedPermissions else None) = None"
    by simp
  have "after_scoped orgID userID d' = d'"
  proof (rule db.equality)
    show "permission (after_scoped orgID userID d') = permission d'"
      unfolding d'
      by (auto simp: after_scoped_def delete_roles_def delete_permissions_of_roles_def
          delete_user_roles_def delete_permissions_scoped_def intro!: filter_cong)
    show "user_role (after_scoped orgID userID d') = user_role d'"
      unfolding d'
      by (auto simp: after_scoped_def delete_roles_def delete_permissions_of_roles_def
          delete_user_roles_def delete_permissions_scoped_def intro!: filter_cong)
  qed (simp_all add: after_scoped_def delete_user_roles_def delete_permissions_scoped_def)
  then show "DeleteUserPermissions f' orgID userID d' = (None, d')"
    using none f' sc
    by (simp only: DeleteUserPermissions_def WithDbSession_def DeleteUserPermissions_callback_cases
        option.case prod.case if_True simp_thms)
qed

theorem DeleteUserPermissions_idempotent_witness:
  "DeleteUserPermissions no_faults 1 5 db_managed = (None, db_managed_org1) \<and>
   select_role_ids 1 5 db_managed_org1 = [] \<and>
   DeleteUserPermissions no_faults 1 5 db_managed_org1 = (None, db_managed_org1) \<and>
   DeleteUserPermissions no_faults 1 5 db_managed_org1 = (None, after_scoped 1 5 db_managed_org1)"
proof -
  have n: "no_faults DeleteUserRoles = None \<and>
           (1 = GlobalOrgID \<longrightarrow> no_faults DeleteUserScopedPermissions = None) \<and>
           no_faults SelectManagedRoles = None"
    by (simp add: no_faults_def)
  note t = DeleteUserPermissions_idempotent [of 1 5 db_managed no_faults db_managed_org1 no_faults]
  note second = t [THEN conjunct2, THEN mp, OF conjI [OF DeleteUserPermissions_db_managed_org1 n]]
  note u = DeleteUserPermissions_idempotent [of 1 5 db_managed_org1 no_faults db_managed_org1 no_faults]
  note first = u [THEN conjunct1, THEN mp, OF conjI [OF second [THEN conjunct1] n]]
  show ?thesis
    using DeleteUserPermissions_db_managed_org1 second first by simp
qed

text \<open>
  C5, as the code has it: a successful call removes the user-role rows of the user, those
  of the organisation when it is not the global scope and those of every organisation when
  it is. In the global scope no permission row whose scope names the user is left.
  Outside the global scope such a row is removed exactly when the role that owns it is a
  managed role of the user found by the lookup, whose permissions are all deleted.
\<close>

theorem DeleteUserPermissions_removes:
  assumes "DeleteUserPermissions f orgID userID d = (None, d')"
  shows "user_role d' =
           filter (\<lambda>ur. \<not> (ur_user_id ur = userID \<and> (orgID = GlobalOrgID \<or> ur_org_id ur = orgID)))
             (user_role d) \<and>
         (orgID = GlobalOrgID \<longrightarrow>
            (\<forall>p \<in> set (permission d'). p_scope p \<noteq> Scope_join [''users'', ''id'', FormatInt userID])) \<and>
         (orgID \<noteq> GlobalOrgID \<longrightarrow>
            (\<forall>p \<in> set (permission d). p_scope p = Scope_join [''users'', ''id'', FormatInt userID] \<longrightarrow>
               (p \<in> set (permission d') \<longleftrightarrow> p_role_id p \<notin> set (select_role_ids orgID userID d))))"
  unfolding DeleteUserPermissions_success [OF assms] user_role_after permission_after
  by auto

theorem DeleteUserPermissions_removes_witness:
  "DeleteUserPermissions no_faults 1 5 db_managed = (None, db_managed_org1) \<and>
   1 \<noteq> GlobalOrgID \<and>
   user_role db_managed_org1 =
     filter (\<lambda>ur. \<not> (ur_user_id ur = 5 \<and> (1 = GlobalOrgID \<or> ur_org_id ur = 1))) (user_role db_managed) \<and>
   \<lparr>p_id = 4, p_role_id = 9, p_action = ''users:write'', p_scope = ''users:id:5''\<rparr>
     \<in> set (permission db_managed) \<and>
   (\<lparr>p_id = 4, p_role_id = 9, p_action = ''users:write'', p_scope = ''users:id:5''\<rparr>
      \<in> set (permission db_managed_org1) \<longleftrightarrow>
    p_role_id \<lparr>p_id = 4, p_role_id = 9, p_action = ''users:write'', p_scope = ''users:id:5''\<rparr>
      \<notin> set (select_role_ids 1 5 db_managed)) \<and>
   DeleteUserPermissions no_faults 0 5 db_managed = (None, db_managed_global) \<and>
   0 = GlobalOrgID \<and>
   user_role db_managed_global =
     filter (\<lambda>ur. \<not> (ur_user_id ur = 5 \<and> (0 = GlobalOrgID \<or> ur_org_id ur = 0))) (user_role db_managed)"
proof -
  let ?p = "\<lparr>p_id = 4, p_role_id = 9, p_action = ''users:write'', p_scope = ''users:id:5''\<rparr>"
  have ne: "1 \<noteq> GlobalOrgID" and g: "0 = GlobalOrgID"
    by (simp_all add: GlobalOrgID_def)
  have m: "?p \<in> set (permission db_managed)"
    by (simp add: db_managed_def)
  have sc: "p_scope ?p = Scope_join [''users'', ''id'', FormatInt 5]"
    by (simp add: FormatInt_5)
  note t = DeleteUserPermissions_removes [OF DeleteUserPermissions_db_managed_org1]
  note b = t [THEN conjunct2, THEN conjunct2, THEN mp, OF ne, THEN bspec, OF m, THEN mp, OF sc]
  note u = DeleteUserPermissions_removes [OF DeleteUserPermissions_db_managed_global]
  show ?thesis
    using DeleteUserPermissions_db_managed_org1 ne t [THEN conjunct1] m b
      DeleteUserPermissions_db_managed_global g u [THEN conjunct1]
    by (intro conjI)
qed

text \<open>
  C5, as the claim states it, fails: the call for organisation 1, which is not the global
  scope, removes permission 2 of \<open>db_managed\<close>, whose scope names user 5, because the
  managed role of user 5 in organisation 1 owns it.
\<close>

theorem DeleteUserPermissions_removes_counterexample:
  "1 \<noteq> GlobalOrgID \<and>
   \<lparr>p_id = 2, p_role_id = 7, p_action = ''users:read'', p_scope = ''users:id:5''\<rparr>
     \<in> set (permission db_managed) \<and>
   p_scope \<lparr>p_id = 2, p_role_id = 7, p_action = ''users:read'', p_scope = ''users:id:5''\<rparr> =
     Scope_join [''users'', ''id'', FormatInt 5] \<and>
   DeleteUserPermissions no_faults 1 5 db_managed = (None, db_managed_org1) \<and>
   \<lparr>p_id = 2, p_role_id = 7, p_action = ''users:read'', p_scope = ''users:id:5''\<rparr>
     \<notin> set (permission db_managed_org1)"
  by (simp add: DeleteUserPermissions_db_managed_org1 FormatInt_5 GlobalOrgID_def)
    (simp add: db_managed_def db_managed_org1_def)

text \<open>
  C9: outside the global scope, a successful call leaves the rows of every other
  organisation as they were: the user-role rows, the roles (the managed roles of the user
  in other organisations and in the global scope among them) and the permission rows owned
  by those roles; the other tables are untouched. Role ids are the primary key of the role
  table, hence distinct.
\<close>

theorem DeleteUserPermissions_frame:
  assumes "orgID \<noteq> GlobalOrgID"
    and "DeleteUserPermissions f orgID userID d = (None, d')"
    and "distinct (map r_id (role d))"
  shows "filter (\<lambda>ur. ur_org_id ur \<noteq> orgID) (user_role d') =
           filter (\<lambda>ur. ur_org_id ur \<noteq> orgID) (user_role d) \<and>
         filter (\<lambda>r. r_org_id r \<noteq> orgID) (role d') = filter (\<lambda>r. r_org_id r \<noteq> orgID) (role d) \<and>
         filter (\<lambda>p. p_role_id p \<in> r_id ` {r \<in> set (role d). r_org_id r \<noteq> orgID}) (permission d') =
           filter (\<lambda>p. p_role_id p \<in> r_id ` {r \<in> set (role d). r_org_id r \<noteq> orgID}) (permission d) \<and>
         team_role d' = team_role d \<and> team_member d' = team_member d \<and>
         builtin_role d' = builtin_role d \<and> org_user d' = org_user d \<and> user d' = user d"
proof -
  note k = other_org_role_kept [OF assms(3) _ _ assms(1), of _ userID]
  have 1: "filter (\<lambda>ur. ur_org_id ur \<noteq> orgID) (user_role d') =
           filter (\<lambda>ur. ur_org_id ur \<noteq> orgID) (user_role d)"
    unfolding DeleteUserPermissions_success [OF assms(2)] user_role_after
    using assms(1) by (auto intro!: filter_cong)
  have 2: "filter (\<lambda>r. r_org_id r \<noteq> orgID) (role d') = filter (\<lambda>r. r_org_id r \<noteq> orgID) (role d)"
    unfolding DeleteUserPermissions_success [OF assms(2)] role_after
    using k by (auto intro!: filter_cong)
  have 3: "filter (\<lambda>p. p_role_id p \<in> r_id ` {r \<in> set (role d). r_org_id r \<noteq> orgID}) (permission d') =
           filter (\<lambda>p. p_role_id p \<in> r_id ` {r \<in> set (role d). r_org_id r \<noteq> orgID}) (permission d)"
    unfolding DeleteUserPermissions_success [OF assms(2)] permission_after
    using k assms(1) by (auto intro!: filter_cong)
  show ?thesis
    using 1 2 3 by (simp add: DeleteUserPermissions_success [OF assms(2)] others_after)
qed

theorem DeleteUserPermissions_frame_witness:
  "1 \<noteq> GlobalOrgID \<and>
   DeleteUserPermissions no_faults 1 5 db_managed = (None, db_managed_org1) \<and>
   distinct (map r_id (role db_managed)) \<and>
   filter (\<lambda>ur. ur_org_id ur \<noteq> 1) (user_role db_managed_org1) =
     filter (\<lambda>ur. ur_org_id ur \<noteq> 1) (user_role db_managed) \<and>
   filter (\<lambda>r. r_org_id r \<noteq> 1) (role db_managed_org1) = filter (\<lambda>r. r_org_id r \<noteq> 1) (role db_managed) \<and>
   filter (\<lambda>p. p_role_id p \<in> r_id ` {r \<in> set (role db_managed). r_org_id r \<noteq> 1}) (permission db_managed_org1) =
     filter (\<lambda>p. p_role_id p \<in> r_id ` {r \<in> set (role db_managed). r_org_id r \<noteq> 1}) (permission db_managed) \<and>
   team_role db_managed_org1 = team_role db_managed \<and> team_member db_managed_org1 = team_member db_managed \<and>
   builtin_role db_managed_org1 = builtin_role db_managed \<and> org_user db_managed_org1 = org_user db_managed \<and>
   user db_managed_org1 = user db_managed"
proof -
  have ne: "1 \<noteq> GlobalOrgID"
    by (simp add: GlobalOrgID_def)
  have dist: "distinct (map r_id (role db_managed))"
    by (simp add: db_managed_def)
  note t = DeleteUserPermissions_frame [OF ne DeleteUserPermissions_db_managed_org1 dist]
  show ?thesis
    by (rule conjI [OF ne conjI [OF DeleteUserPermissions_db_managed_org1 conjI [OF dist t]]])
qed

end
